theory Spec2Isabelle
  imports Main
begin

section \<open>Data model\<close>

text \<open>
  Go's \<^verbatim>\<open>error\<close> values. \<open>NotFound\<close> is the API server's "not found" status,
  \<open>ApiError\<close> any other failure of a cluster call, \<open>ProviderError\<close> a failure reported by
  the Azure record-set client, and \<open>Errorf msg e\<close> is \<^verbatim>\<open>fmt.Errorf(msg + ": %w", e)\<close>.
  A nil error is \<open>None\<close> of type \<open>error option\<close>.
\<close>

datatype error =
    NotFound
  | ApiError string
  | ProviderError string
  | Errorf string error

text \<open>The fields of \<^verbatim>\<open>corev1.Service\<close> that the reconciler reads or writes, and two of
  the mutable metadata fields it never reads. A nil \<^verbatim>\<open>DeletionTimestamp\<close> is \<open>None\<close>.\<close>

record Service =
  Name :: string
  Namespace :: string
  Labels :: "(string \<times> string) list"
  Annotations :: "(string \<times> string) list"
  DeletionTimestamp :: "nat option"
  Finalizers :: "string list"
  ClusterIP :: string
  ClusterIPs :: "string list"

datatype RecordType = RecordTypeA | RecordTypeAAAA | RecordTypeTXT

datatype ARecord = ARecord (IPv4Address: string)

datatype AaaaRecord = AaaaRecord (IPv6Address: string)

text \<open>\<^verbatim>\<open>dns.RecordSet\<close> with the properties the client fills in; a nil slice is \<open>[]\<close>,
  a nil \<^verbatim>\<open>TTL\<close> pointer is \<open>None\<close>.\<close>

record RecordSet =
  TTL :: "int option"
  ARecords :: "ARecord list"
  AaaaRecords :: "AaaaRecord list"

record AzureDNSConfig =
  SubscriptionID :: string
  ResourceGroup :: string
  ZoneName :: string

text \<open>
  Everything a reconcile can observe or change, passed explicitly:
  \<^item> \<open>object\<close>: the Service stored in the cluster under the requested key, if any;
  \<^item> \<open>records\<close>: the record sets of the private DNS service, keyed by
    resource group, zone, record type and relative name (one record set per key);
  \<^item> \<open>k8s_faults\<close>, \<open>azure_faults\<close>: the outcomes the two remote services will give to
    the coming calls, one entry per call, \<open>None\<close> for success; an exhausted list means
    success;
  \<^item> \<open>history\<close>: every remote call and log line so far, in program order.
\<close>

datatype event =
    K8sGet
  | K8sUpdate Service
  | SdkCreateOrUpdate string string RecordType string RecordSet
  | SdkDelete string string RecordType string
  | CallUpsertDNSRecords string "string list"
  | CallDeleteDNSRecords string
  | LogPrintf string

record world =
  object :: "Service option"
  records :: "string \<times> string \<times> RecordType \<times> string \<rightharpoonup> RecordSet"
  k8s_faults :: "error option list"
  azure_faults :: "error option list"
  history :: "event list"

definition next_fault :: "error option list \<Rightarrow> error option" where
  "next_fault fs = (case fs of [] \<Rightarrow> None | f # _ \<Rightarrow> f)"

definition emit :: "event \<Rightarrow> world \<Rightarrow> world" where
  "emit ev w = w\<lparr>history := history w @ [ev]\<rparr>"

section \<open>External collaborators\<close>

text \<open>
  The Azure SDK's \<^verbatim>\<open>RecordSetsClient\<close> is not part of the repository. Its two calls are
  taken with the service's contract: \<^verbatim>\<open>CreateOrUpdate\<close> is a PUT that stores the given
  record set under (type, name), replacing whatever was there; \<^verbatim>\<open>Delete\<close> removes the
  record set under (type, name). A call that reports an error changes nothing.
\<close>

definition RecordSets_CreateOrUpdate ::
  "string \<Rightarrow> string \<Rightarrow> RecordType \<Rightarrow> string \<Rightarrow> RecordSet \<Rightarrow> world \<Rightarrow> error option \<times> world" where
  "RecordSets_CreateOrUpdate resourceGroup zoneName recordType name rs w =
     (let w1 = (emit (SdkCreateOrUpdate resourceGroup zoneName recordType name rs) w)
                 \<lparr>azure_faults := tl (azure_faults w)\<rparr>
      in case next_fault (azure_faults w) of
           Some err \<Rightarrow> (Some err, w1)
         | None \<Rightarrow>
             (None, w1\<lparr>records := (records w)((resourceGroup, zoneName, recordType, name) \<mapsto> rs)\<rparr>))"

definition RecordSets_Delete ::
  "string \<Rightarrow> string \<Rightarrow> RecordType \<Rightarrow> string \<Rightarrow> world \<Rightarrow> error option \<times> world" where
  "RecordSets_Delete resourceGroup zoneName recordType name w =
     (let w1 = (emit (SdkDelete resourceGroup zoneName recordType name) w)
                 \<lparr>azure_faults := tl (azure_faults w)\<rparr>
      in case next_fault (azure_faults w) of
           Some err \<Rightarrow> (Some err, w1)
         | None \<Rightarrow>
             (None, w1\<lparr>records := (records w)((resourceGroup, zoneName, recordType, name) := None)\<rparr>))"

text \<open>\<^verbatim>\<open>strings.Count(s, sep)\<close> for a separator of one byte: the number of bytes of
  \<open>s\<close> equal to it.\<close>

definition strings_Count :: "string \<Rightarrow> char \<Rightarrow> nat" where
  "strings_Count s sep = length (filter (\<lambda>c. c = sep) s)"

section \<open>The DNS client (AzureDNSConfig)\<close>

text \<open>The first loop of \<^verbatim>\<open>UpsertDNSRecords\<close>: it walks \<^verbatim>\<open>ipList\<close> and appends each
  entry to \<^verbatim>\<open>ipv6Addrs\<close> when it has at least two colons, to \<^verbatim>\<open>ipv4Addrs\<close> otherwise.
  The result is the pair \<open>(ipv4Addrs, ipv6Addrs)\<close>.\<close>

fun classify_loop :: "string list \<Rightarrow> string list \<Rightarrow> string list \<Rightarrow> string list \<times> string list" where
  "classify_loop [] ipv4Addrs ipv6Addrs = (ipv4Addrs, ipv6Addrs)"
| "classify_loop (ip # rest) ipv4Addrs ipv6Addrs =
     (if strings_Count ip CHR '':'' \<ge> 2
      then classify_loop rest ipv4Addrs (ipv6Addrs @ [ip])
      else classify_loop rest (ipv4Addrs @ [ip]) ipv6Addrs)"

definition classify :: "string list \<Rightarrow> string list \<times> string list" where
  "classify ipList = classify_loop ipList [] []"

fun aRecords_loop :: "string list \<Rightarrow> ARecord list \<Rightarrow> ARecord list" where
  "aRecords_loop [] aRecords = aRecords"
| "aRecords_loop (ip # ips) aRecords = aRecords_loop ips (aRecords @ [ARecord ip])"

fun aaaaRecords_loop :: "string list \<Rightarrow> AaaaRecord list \<Rightarrow> AaaaRecord list" where
  "aaaaRecords_loop [] aaaaRecords = aaaaRecords"
| "aaaaRecords_loop (ip # ips) aaaaRecords = aaaaRecords_loop ips (aaaaRecords @ [AaaaRecord ip])"

definition createOrUpdateARecordSet ::
  "AzureDNSConfig \<Rightarrow> string \<Rightarrow> string list \<Rightarrow> world \<Rightarrow> error option \<times> world" where
  "createOrUpdateARecordSet r dnsName ips w =
     (let aRecords = aRecords_loop ips [];
          rs = \<lparr>TTL = Some 300, ARecords = aRecords, AaaaRecords = []\<rparr>
      in case RecordSets_CreateOrUpdate (ResourceGroup r) (ZoneName r) RecordTypeA dnsName rs w of
           (Some err, w1) \<Rightarrow> (Some err, w1)
         | (None, w1) \<Rightarrow> (None, w1))"

definition createOrUpdateAAAARecordSet ::
  "AzureDNSConfig \<Rightarrow> string \<Rightarrow> string list \<Rightarrow> world \<Rightarrow> error option \<times> world" where
  "createOrUpdateAAAARecordSet r dnsName ips w =
     (let aaaaRecords = aaaaRecords_loop ips [];
          rs = \<lparr>TTL = Some 300, ARecords = [], AaaaRecords = aaaaRecords\<rparr>
      in RecordSets_CreateOrUpdate (ResourceGroup r) (ZoneName r) RecordTypeAAAA dnsName rs w)"

text \<open>\<^verbatim>\<open>UpsertDNSRecords\<close>; the call itself is recorded in the history on entry.\<close>

definition UpsertDNSRecords ::
  "AzureDNSConfig \<Rightarrow> string \<Rightarrow> string list \<Rightarrow> world \<Rightarrow> error option \<times> world" where
  "UpsertDNSRecords r dnsName ipList w0 =
     (let w = emit (CallUpsertDNSRecords dnsName ipList) w0;
          (ipv4Addrs, ipv6Addrs) = classify ipList
      in case (if length ipv4Addrs > 0
               then createOrUpdateARecordSet r dnsName ipv4Addrs w
               else (None, w)) of
           (Some err, w1) \<Rightarrow> (Some (Errorf ''error upserting A records'' err), w1)
         | (None, w1) \<Rightarrow>
             (case (if length ipv6Addrs > 0
                    then createOrUpdateAAAARecordSet r dnsName ipv6Addrs w1
                    else (None, w1)) of
                (Some err, w2) \<Rightarrow> (Some (Errorf ''error upserting AAAA records'' err), w2)
              | (None, w2) \<Rightarrow> (None, w2)))"

definition DeleteDNSRecords ::
  "AzureDNSConfig \<Rightarrow> string \<Rightarrow> world \<Rightarrow> error option \<times> world" where
  "DeleteDNSRecords r dnsName w0 =
     (let w = emit (CallDeleteDNSRecords dnsName) w0
      in case RecordSets_Delete (ResourceGroup r) (ZoneName r) RecordTypeA dnsName w of
           (Some err, w1) \<Rightarrow> (Some (Errorf ''error deleting A records'' err), w1)
         | (None, w1) \<Rightarrow>
             (case RecordSets_Delete (ResourceGroup r) (ZoneName r) RecordTypeAAAA dnsName w1 of
                (Some err, w2) \<Rightarrow> (Some (Errorf ''error deleting AAAA records'' err), w2)
              | (None, w2) \<Rightarrow> (None, w2)))"

section \<open>The Service reconciler\<close>

text \<open>
  The cluster client (controller-runtime's \<^verbatim>\<open>client.Client\<close>) is external too.
  \<^verbatim>\<open>Get\<close> returns the stored object or the not-found status; \<^verbatim>\<open>Update\<close> replaces the
  stored object when it succeeds and changes nothing when it fails. Whatever else the API
  server may answer (conflicts, admission rejections, time-outs) is an entry of
  \<open>k8s_faults\<close>.
\<close>

definition Client_Get :: "world \<Rightarrow> (error + Service) \<times> world" where
  "Client_Get w =
     (let w1 = (emit K8sGet w)\<lparr>k8s_faults := tl (k8s_faults w)\<rparr>
      in case next_fault (k8s_faults w) of
           Some err \<Rightarrow> (Inl err, w1)
         | None \<Rightarrow> (case object w of None \<Rightarrow> (Inl NotFound, w1) | Some svc \<Rightarrow> (Inr svc, w1)))"

definition Client_Update :: "Service \<Rightarrow> world \<Rightarrow> error option \<times> world" where
  "Client_Update svc w =
     (let w1 = (emit (K8sUpdate svc) w)\<lparr>k8s_faults := tl (k8s_faults w)\<rparr>
      in case next_fault (k8s_faults w) of
           Some err \<Rightarrow> (Some err, w1)
         | None \<Rightarrow>
             (case object w of
                None \<Rightarrow> (Some NotFound, w1)
              | Some _ \<Rightarrow> (None, w1\<lparr>object := Some svc\<rparr>)))"

text \<open>\<^verbatim>\<open>apierrors.IsNotFound\<close> looks through wrapped errors for the not-found status;
  \<^verbatim>\<open>client.IgnoreNotFound\<close> is nil for such an error and the error itself otherwise.\<close>

fun IsNotFound :: "error \<Rightarrow> bool" where
  "IsNotFound NotFound = True"
| "IsNotFound (Errorf _ err) = IsNotFound err"
| "IsNotFound _ = False"

definition IgnoreNotFound :: "error option \<Rightarrow> error option" where
  "IgnoreNotFound err =
     (case err of None \<Rightarrow> None | Some e \<Rightarrow> if IsNotFound e then None else Some e)"

text \<open>The finalizer helpers of controller-runtime's \<^verbatim>\<open>controllerutil\<close>: adding is a no-op
  when the token is already there, removing drops every occurrence.\<close>

definition ContainsFinalizer :: "Service \<Rightarrow> string \<Rightarrow> bool" where
  "ContainsFinalizer svc f = (f \<in> set (Finalizers svc))"

definition AddFinalizer :: "Service \<Rightarrow> string \<Rightarrow> Service" where
  "AddFinalizer svc f =
     (if f \<in> set (Finalizers svc) then svc else svc\<lparr>Finalizers := Finalizers svc @ [f]\<rparr>)"

definition RemoveFinalizer :: "Service \<Rightarrow> string \<Rightarrow> Service" where
  "RemoveFinalizer svc f = svc\<lparr>Finalizers := filter (\<lambda>e. e \<noteq> f) (Finalizers svc)\<rparr>"

definition finalizer :: string where
  "finalizer = ''dns.azure.com''"

definition Printf :: "string \<Rightarrow> world \<Rightarrow> world" where
  "Printf msg w = emit (LogPrintf msg) w"

text \<open>\<^verbatim>\<open>%v\<close> of a string slice: the elements separated by spaces, in brackets.\<close>

fun join_space :: "string list \<Rightarrow> string" where
  "join_space [] = []"
| "join_space [x] = x"
| "join_space (x # y # ys) = x @ '' '' @ join_space (y # ys)"

definition fmt_v :: "string list \<Rightarrow> string" where
  "fmt_v xs = ''['' @ join_space xs @ '']''"

text \<open>\<^verbatim>\<open>dnsName := fmt.Sprintf("%s.%s.svc", svc.Name, svc.Namespace)\<close>\<close>

definition dnsName :: "Service \<Rightarrow> string" where
  "dnsName svc = Name svc @ ''.'' @ Namespace svc @ ''.svc''"

text \<open>
  The statements of \<^verbatim>\<open>Reconcile\<close> that follow the deletion block, from the
  \<^verbatim>\<open>"Reconciling Service"\<close> log line to the end. They are reached directly when the
  Service has no deletion timestamp, and also when the deletion block runs to its end,
  since that block does not return after its \<^verbatim>\<open>Update\<close>.
\<close>

definition Reconcile_converge ::
  "AzureDNSConfig \<Rightarrow> string \<Rightarrow> Service \<Rightarrow> world \<Rightarrow> error option \<times> world" where
  "Reconcile_converge r name svc0 w0 =
     (let w = Printf (''Reconciling Service '' @ Namespace svc0 @ ''/'' @ Name svc0
                        @ '' ...'' @ [CHR 0x0A]) w0;
          svc = AddFinalizer svc0 finalizer
      in case Client_Update svc w of
           (Some err, w1) \<Rightarrow> (Some err, w1)
         | (None, w1) \<Rightarrow>
             (case UpsertDNSRecords r name (ClusterIPs svc) w1 of
                (Some err, w2) \<Rightarrow> (Some err, w2)
              | (None, w2) \<Rightarrow>
                  (None, Printf (''Successfully updated DNS for headless Service ''
                                   @ Namespace svc @ ''/'' @ Name svc @ '' -> ''
                                   @ fmt_v (ClusterIPs svc)) w2)))"

text \<open>
  \<^verbatim>\<open>ServiceReconciler.Reconcile\<close> as in the reconciler's own file (the version with
  \<^verbatim>\<open>DeepCopy\<close> and the \<^verbatim>\<open>ContainsFinalizer\<close> test). The receiver's \<^verbatim>\<open>dns\<close> field is
  the \<^verbatim>\<open>AzureDNSConfig\<close> that \<^verbatim>\<open>main\<close> stores there. The result is the error alone:
  the \<^verbatim>\<open>reconcile.Result\<close> returned is the empty one on every path. Values are immutable
  here, so \<^verbatim>\<open>svc = *svc.DeepCopy()\<close> is the identity.
\<close>

definition Reconcile :: "AzureDNSConfig \<Rightarrow> world \<Rightarrow> error option \<times> world" where
  "Reconcile r w0 =
     (case Client_Get w0 of
        (Inl err, w1) \<Rightarrow> (IgnoreNotFound (Some err), w1)
      | (Inr svc, w1) \<Rightarrow>
          if ClusterIP svc = ''None''
          then (None, Printf (''Ignoring Headless service '' @ Namespace svc @ ''/'' @ Name svc) w1)
          else
            let name = dnsName svc in
            if DeletionTimestamp svc \<noteq> None
            then
              if \<not> ContainsFinalizer svc finalizer then (None, w1)
              else
                let w2 = Printf (''Deleting Service '' @ Namespace svc @ ''/'' @ Name svc
                                   @ '' ...'' @ [CHR 0x0A]) w1
                in case DeleteDNSRecords r name w2 of
                     (Some err, w3) \<Rightarrow> (Some err, w3)
                   | (None, w3) \<Rightarrow>
                       let svc1 = RemoveFinalizer svc finalizer
                       in (case Client_Update svc1 w3 of
                             (Some err, w4) \<Rightarrow> (Some err, w4)
                           | (None, w4) \<Rightarrow> Reconcile_converge r name svc1 w4)
            else Reconcile_converge r name svc w1)"

text \<open>\<^verbatim>\<open>ServiceReconciler.Reconcile\<close> as in \<^verbatim>\<open>main.go\<close>: the same function without
  the \<^verbatim>\<open>ContainsFinalizer\<close> test at the head of the deletion block.\<close>

definition Reconcile_main :: "AzureDNSConfig \<Rightarrow> world \<Rightarrow> error option \<times> world" where
  "Reconcile_main r w0 =
     (case Client_Get w0 of
        (Inl err, w1) \<Rightarrow> (IgnoreNotFound (Some err), w1)
      | (Inr svc, w1) \<Rightarrow>
          if ClusterIP svc = ''None''
          then (None, Printf (''Ignoring Headless service '' @ Namespace svc @ ''/'' @ Name svc) w1)
          else
            let name = dnsName svc in
            if DeletionTimestamp svc \<noteq> None
            then
              let w2 = Printf (''Deleting Service '' @ Namespace svc @ ''/'' @ Name svc
                                 @ '' ...'' @ [CHR 0x0A]) w1
              in case DeleteDNSRecords r name w2 of
                   (Some err, w3) \<Rightarrow> (Some err, w3)
                 | (None, w3) \<Rightarrow>
                     let svc1 = RemoveFinalizer svc finalizer
                     in (case Client_Update svc1 w3 of
                           (Some err, w4) \<Rightarrow> (Some err, w4)
                         | (None, w4) \<Rightarrow> Reconcile_converge r name svc1 w4)
            else Reconcile_converge r name svc w1)"

section \<open>Observations on histories, and the wording of the specification\<close>

text \<open>The events a call adds to the history.\<close>

definition added :: "world \<Rightarrow> world \<Rightarrow> event list" where
  "added w w' = drop (length (history w)) (history w')"

fun is_log :: "event \<Rightarrow> bool" where
  "is_log (LogPrintf _) = True"
| "is_log _ = False"

fun is_update :: "event \<Rightarrow> bool" where
  "is_update (K8sUpdate _) = True"
| "is_update _ = False"

fun is_upsert :: "event \<Rightarrow> bool" where
  "is_upsert (CallUpsertDNSRecords _ _) = True"
| "is_upsert (SdkCreateOrUpdate _ _ _ _ _) = True"
| "is_upsert _ = False"

fun is_delete :: "event \<Rightarrow> bool" where
  "is_delete (CallDeleteDNSRecords _) = True"
| "is_delete (SdkDelete _ _ _ _) = True"
| "is_delete _ = False"

text \<open>The DNS name an event carries, for the events that are DNS calls.\<close>

fun dns_name_of :: "event \<Rightarrow> string option" where
  "dns_name_of (CallUpsertDNSRecords n _) = Some n"
| "dns_name_of (CallDeleteDNSRecords n) = Some n"
| "dns_name_of (SdkCreateOrUpdate _ _ _ n _) = Some n"
| "dns_name_of (SdkDelete _ _ _ n) = Some n"
| "dns_name_of _ = None"

text \<open>The specification's test for IPv6, in its own words: "an address is IPv6 iff it
  contains two or more colon-separated groups". The groups of a string are the pieces
  between its colons.\<close>

fun colon_groups :: "string \<Rightarrow> string list" where
  "colon_groups [] = [[]]"
| "colon_groups (c # cs) =
     (if c = CHR '':'' then [] # colon_groups cs
      else (case colon_groups cs of g # gs \<Rightarrow> (c # g) # gs | [] \<Rightarrow> [[c]]))"

definition spec_is_ipv6 :: "string \<Rightarrow> bool" where
  "spec_is_ipv6 ip = (length (colon_groups ip) \<ge> 2)"

text \<open>\<open>extends_with P w w'\<close>: the history of \<open>w'\<close> is the history of \<open>w\<close> followed by
  events that all satisfy \<open>P\<close>.\<close>

definition extends_with :: "(event \<Rightarrow> bool) \<Rightarrow> world \<Rightarrow> world \<Rightarrow> bool" where
  "extends_with P w w' =
     (take (length (history w)) (history w') = history w \<and> list_all P (added w w'))"

text \<open>An event that is no DNS call, or is a DNS call for the name \<open>n\<close>.\<close>

definition names_only :: "string \<Rightarrow> event \<Rightarrow> bool" where
  "names_only n ev = (dns_name_of ev = None \<or> dns_name_of ev = Some n)"

section \<open>Fixtures\<close>

definition cfg0 :: AzureDNSConfig where
  "cfg0 = \<lparr>SubscriptionID = ''sub'', ResourceGroup = ''rg'', ZoneName = ''cluster.local''\<rparr>"

definition web :: Service where
  "web = \<lparr>Name = ''web'', Namespace = ''default'', Labels = [], Annotations = [],
          DeletionTimestamp = None, Finalizers = [], ClusterIP = ''10.0.0.5'',
          ClusterIPs = [''10.0.0.5'']\<rparr>"

definition world0 :: world where
  "world0 = \<lparr>object = None, records = Map.empty, k8s_faults = [], azure_faults = [],
             history = []\<rparr>"

definition web_deleting :: Service where
  "web_deleting = web\<lparr>DeletionTimestamp := Some 1, Finalizers := [''dns.azure.com'']\<rparr>"

definition web_headless :: Service where
  "web_headless = web\<lparr>ClusterIP := ''None'', ClusterIPs := [''None'']\<rparr>"

definition stale_world :: world where
  "stale_world = world0\<lparr>records := [(''rg'', ''cluster.local'', RecordTypeA, ''web.default.svc'')
       \<mapsto> \<lparr>TTL = Some 300, ARecords = [ARecord ''10.0.0.9''], AaaaRecords = []\<rparr>]\<rparr>"

definition deleting_world :: world where
  "deleting_world = world0\<lparr>object := Some web_deleting\<rparr>"

definition throttled_world :: world where
  "throttled_world = deleting_world\<lparr>azure_faults := [Some (ProviderError ''throttled'')]\<rparr>"

definition web_headless_deleting :: Service where
  "web_headless_deleting =
     web_headless\<lparr>DeletionTimestamp := Some 1, Finalizers := [''dns.azure.com'']\<rparr>"

section \<open>Basic facts\<close>

lemmas client_defs = UpsertDNSRecords_def DeleteDNSRecords_def createOrUpdateARecordSet_def
  createOrUpdateAAAARecordSet_def RecordSets_CreateOrUpdate_def RecordSets_Delete_def
  next_fault_def emit_def Let_def

lemma classify_loop_filter:
  "classify_loop ipList v4 v6 =
     (v4 @ filter (\<lambda>ip. \<not> 2 \<le> strings_Count ip CHR '':'') ipList,
      v6 @ filter (\<lambda>ip. 2 \<le> strings_Count ip CHR '':'') ipList)"
  by (induction ipList arbitrary: v4 v6) simp_all

lemma aRecords_loop_map: "aRecords_loop ips acc = acc @ map ARecord ips"
  by (induction ips arbitrary: acc) simp_all

lemma aaaaRecords_loop_map: "aaaaRecords_loop ips acc = acc @ map AaaaRecord ips"
  by (induction ips arbitrary: acc) simp_all

lemma classify_filter:
  "classify ipList =
     (filter (\<lambda>ip. \<not> 2 \<le> strings_Count ip CHR '':'') ipList,
      filter (\<lambda>ip. 2 \<le> strings_Count ip CHR '':'') ipList)"
  by (simp add: classify_def classify_loop_filter)

lemma colon_groups_length: "length (colon_groups ip) = strings_Count ip CHR '':'' + 1"
  by (induction ip) (auto simp: strings_Count_def split: list.splits)

lemma added_append [simp]: "added w (w'\<lparr>history := history w @ evs\<rparr>) = evs"
  by (simp add: added_def)

lemma added_history: "history w' = history w @ evs \<Longrightarrow> added w w' = evs"
  by (simp add: added_def)

subsection \<open>What a call of the DNS client adds\<close>

lemma Upsert_events:
  "\<exists>evs. history (snd (UpsertDNSRecords r n l w)) = history w @ CallUpsertDNSRecords n l # evs
         \<and> (\<forall>ev \<in> set evs. is_upsert ev \<and> dns_name_of ev = Some n)"
  by (auto simp: client_defs split: prod.splits option.splits)

lemma Upsert_frame:
  "object (snd (UpsertDNSRecords r n l w)) = object w"
  "k8s_faults (snd (UpsertDNSRecords r n l w)) = k8s_faults w"
  by (auto simp: client_defs split: prod.splits option.splits)

lemma Upsert_history:
  "history (snd (UpsertDNSRecords r n l w)) =
     history w @ CallUpsertDNSRecords n l #
       (if fst (classify l) = [] then []
        else [SdkCreateOrUpdate (ResourceGroup r) (ZoneName r) RecordTypeA n
                \<lparr>TTL = Some 300, ARecords = map ARecord (fst (classify l)), AaaaRecords = []\<rparr>])
       @ (if snd (classify l) = [] \<or> (fst (classify l) \<noteq> [] \<and> next_fault (azure_faults w) \<noteq> None)
          then []
          else [SdkCreateOrUpdate (ResourceGroup r) (ZoneName r) RecordTypeAAAA n
                  \<lparr>TTL = Some 300, ARecords = [], AaaaRecords = map AaaaRecord (snd (classify l))\<rparr>])"
  by (cases "classify l")
     (simp add: client_defs aRecords_loop_map aaaaRecords_loop_map split: option.splits)

lemma Upsert_error_cause:
  "fst (UpsertDNSRecords r n l w) \<noteq> None \<Longrightarrow>
     next_fault (azure_faults w) \<noteq> None \<or> next_fault (tl (azure_faults w)) \<noteq> None"
  by (cases "classify l")
     (auto simp: client_defs split: option.splits if_splits)

lemma Upsert_accepted:
  assumes "next_fault (azure_faults w) = None" and "next_fault (tl (azure_faults w)) = None"
  shows "fst (UpsertDNSRecords r n l w) = None"
    and "fst (classify l) \<noteq> [] \<Longrightarrow>
           records (snd (UpsertDNSRecords r n l w)) (ResourceGroup r, ZoneName r, RecordTypeA, n) =
             Some \<lparr>TTL = Some 300, ARecords = map ARecord (fst (classify l)), AaaaRecords = []\<rparr>"
    and "snd (classify l) \<noteq> [] \<Longrightarrow>
           records (snd (UpsertDNSRecords r n l w)) (ResourceGroup r, ZoneName r, RecordTypeAAAA, n) =
             Some \<lparr>TTL = Some 300, ARecords = [], AaaaRecords = map AaaaRecord (snd (classify l))\<rparr>"
  using assms
  by (cases "classify l"; simp add: client_defs aRecords_loop_map aaaaRecords_loop_map)+

lemma Delete_A_failed:
  assumes "next_fault (azure_faults w) = Some e"
  shows "DeleteDNSRecords r n w =
     (Some (Errorf ''error deleting A records'' e),
      w\<lparr>history := history w @ [CallDeleteDNSRecords n,
            SdkDelete (ResourceGroup r) (ZoneName r) RecordTypeA n],
        azure_faults := tl (azure_faults w)\<rparr>)"
  using assms by (simp add: DeleteDNSRecords_def RecordSets_Delete_def emit_def Let_def)

lemma Delete_AAAA_failed:
  assumes "next_fault (azure_faults w) = None" and "next_fault (tl (azure_faults w)) = Some e"
  shows "DeleteDNSRecords r n w =
     (Some (Errorf ''error deleting AAAA records'' e),
      w\<lparr>history := history w @ [CallDeleteDNSRecords n,
            SdkDelete (ResourceGroup r) (ZoneName r) RecordTypeA n,
            SdkDelete (ResourceGroup r) (ZoneName r) RecordTypeAAAA n],
        azure_faults := tl (tl (azure_faults w)),
        records := (records w)((ResourceGroup r, ZoneName r, RecordTypeA, n) := None)\<rparr>)"
  using assms by (simp add: DeleteDNSRecords_def RecordSets_Delete_def emit_def Let_def)

lemma Delete_ok:
  assumes "next_fault (azure_faults w) = None" and "next_fault (tl (azure_faults w)) = None"
  shows "DeleteDNSRecords r n w =
     (None,
      w\<lparr>history := history w @ [CallDeleteDNSRecords n,
            SdkDelete (ResourceGroup r) (ZoneName r) RecordTypeA n,
            SdkDelete (ResourceGroup r) (ZoneName r) RecordTypeAAAA n],
        azure_faults := tl (tl (azure_faults w)),
        records := (records w)((ResourceGroup r, ZoneName r, RecordTypeA, n) := None,
                               (ResourceGroup r, ZoneName r, RecordTypeAAAA, n) := None)\<rparr>)"
  using assms by (simp add: DeleteDNSRecords_def RecordSets_Delete_def emit_def Let_def)

subsection \<open>The cluster client and the convergence tail\<close>

lemma Client_Get_ok:
  assumes "next_fault (k8s_faults w) = None" and "object w = Some svc"
  shows "Client_Get w = (Inr svc, w\<lparr>history := history w @ [K8sGet], k8s_faults := tl (k8s_faults w)\<rparr>)"
  using assms by (simp add: Client_Get_def emit_def Let_def)

lemma Client_Update_failed:
  assumes "next_fault (k8s_faults w) = Some e"
  shows "Client_Update svc w =
     (Some e, w\<lparr>history := history w @ [K8sUpdate svc], k8s_faults := tl (k8s_faults w)\<rparr>)"
  using assms by (simp add: Client_Update_def emit_def Let_def)

lemma Client_Update_ok:
  assumes "next_fault (k8s_faults w) = None" and "object w = Some old"
  shows "Client_Update svc w =
     (None, w\<lparr>history := history w @ [K8sUpdate svc], k8s_faults := tl (k8s_faults w),
              object := Some svc\<rparr>)"
  using assms by (simp add: Client_Update_def emit_def Let_def)

lemma Client_Update_events:
  "history (snd (Client_Update svc w)) = history w @ [K8sUpdate svc]"
  by (simp add: Client_Update_def emit_def Let_def split: option.splits)

lemma converge_failed:
  assumes "next_fault (k8s_faults w) = Some e"
  shows "Reconcile_converge r n svc w =
     (Some e, w\<lparr>history := history w @
                   [LogPrintf (''Reconciling Service '' @ Namespace svc @ ''/'' @ Name svc
                      @ '' ...'' @ [CHR 0x0A]),
                    K8sUpdate (AddFinalizer svc finalizer)],
                k8s_faults := tl (k8s_faults w)\<rparr>)"
  using assms
  by (simp add: Reconcile_converge_def Printf_def emit_def Let_def Client_Update_def)

lemma converge_ok:
  assumes "next_fault (k8s_faults w) = None" and "object w = Some old"
  shows "\<exists>evs. history (snd (Reconcile_converge r n svc w)) =
            history w @
              [LogPrintf (''Reconciling Service '' @ Namespace svc @ ''/'' @ Name svc
                 @ '' ...'' @ [CHR 0x0A]),
               K8sUpdate (AddFinalizer svc finalizer),
               CallUpsertDNSRecords n (ClusterIPs svc)] @ evs
          \<and> (\<forall>ev \<in> set evs. dns_name_of ev = Some n \<or> is_log ev)
          \<and> object (snd (Reconcile_converge r n svc w)) = Some (AddFinalizer svc finalizer)"
proof -
  let ?svc1 = "AddFinalizer svc finalizer"
  let ?m = "''Reconciling Service '' @ Namespace svc @ ''/'' @ Name svc @ '' ...'' @ [CHR 0x0A]"
  let ?w1 = "w\<lparr>history := history w @ [LogPrintf ?m, K8sUpdate ?svc1],
               k8s_faults := tl (k8s_faults w), object := Some ?svc1\<rparr>"
  have ips: "ClusterIPs ?svc1 = ClusterIPs svc"
    by (simp add: AddFinalizer_def)
  have upd: "Client_Update ?svc1 (Printf ?m w) = (None, ?w1)"
    using assms by (simp add: Client_Update_def Printf_def emit_def Let_def)
  obtain evs where evs:
    "history (snd (UpsertDNSRecords r n (ClusterIPs svc) ?w1)) =
       history ?w1 @ CallUpsertDNSRecords n (ClusterIPs svc) # evs"
    "\<forall>ev \<in> set evs. is_upsert ev \<and> dns_name_of ev = Some n"
    using Upsert_events by blast
  have obj: "object (snd (UpsertDNSRecords r n (ClusterIPs svc) ?w1)) = Some ?svc1"
    by (simp add: Upsert_frame)
  obtain res w2 where up: "UpsertDNSRecords r n (ClusterIPs svc) ?w1 = (res, w2)"
    by (cases "UpsertDNSRecords r n (ClusterIPs svc) ?w1")
  with evs obj have h: "history w2 = history ?w1 @ CallUpsertDNSRecords n (ClusterIPs svc) # evs"
    and o: "object w2 = Some ?svc1" by simp_all
  show ?thesis
  proof (cases res)
    case None
    have "Reconcile_converge r n svc w =
            (None, Printf (''Successfully updated DNS for headless Service ''
                      @ Namespace ?svc1 @ ''/'' @ Name ?svc1 @ '' -> ''
                      @ fmt_v (ClusterIPs ?svc1)) w2)"
      unfolding Reconcile_converge_def Let_def upd using up None by (simp add: ips)
    with h o evs(2) show ?thesis
      by (intro exI[of _ "evs @ [LogPrintf (''Successfully updated DNS for headless Service ''
                                   @ Namespace ?svc1 @ ''/'' @ Name ?svc1 @ '' -> ''
                                   @ fmt_v (ClusterIPs ?svc1))]"])
         (auto simp: Printf_def emit_def)
  next
    case (Some err)
    have "Reconcile_converge r n svc w = (Some err, w2)"
      unfolding Reconcile_converge_def Let_def upd using up Some by (simp add: ips)
    with h o evs(2) show ?thesis
      by (intro exI[of _ evs]) auto
  qed
qed

subsection \<open>Histories only grow, and every DNS call carries the one name\<close>

lemma extends_withI:
  "history w' = history w @ evs \<Longrightarrow> (\<forall>ev \<in> set evs. P ev) \<Longrightarrow> extends_with P w w'"
  by (simp add: extends_with_def added_def list_all_iff)

lemma extends_withD:
  "extends_with P w w' \<Longrightarrow> \<exists>evs. history w' = history w @ evs \<and> (\<forall>ev \<in> set evs. P ev)"
  unfolding extends_with_def added_def list_all_iff
  by (metis append_take_drop_id)

lemma extends_with_same: "history w' = history w \<Longrightarrow> extends_with P w w'"
  by (rule extends_withI [where evs = "[]"]) simp_all

lemma extends_with_trans:
  assumes "extends_with P w w1" and "extends_with P w1 w2"
  shows "extends_with P w w2"
proof -
  obtain e1 where e1: "history w1 = history w @ e1" "\<forall>ev \<in> set e1. P ev"
    using extends_withD [OF assms(1)] by blast
  obtain e2 where e2: "history w2 = history w1 @ e2" "\<forall>ev \<in> set e2. P ev"
    using extends_withD [OF assms(2)] by blast
  show ?thesis
    using e1 e2 by (intro extends_withI [where evs = "e1 @ e2"]) auto
qed

lemma extends_with_added:
  "extends_with P w w' \<Longrightarrow> \<forall>ev \<in> set (added w w'). P ev"
  by (simp add: extends_with_def list_all_iff)

lemma Upsert_names: "extends_with (names_only n) w (snd (UpsertDNSRecords r n l w))"
proof -
  obtain evs where "history (snd (UpsertDNSRecords r n l w)) = history w @ CallUpsertDNSRecords n l # evs"
    and "\<forall>ev \<in> set evs. is_upsert ev \<and> dns_name_of ev = Some n"
    using Upsert_events by blast
  then show ?thesis
    by (intro extends_withI [where evs = "CallUpsertDNSRecords n l # evs"])
       (auto simp: names_only_def)
qed

lemma Delete_names: "extends_with (names_only (n::string)) w (snd (DeleteDNSRecords r n w))"
  by (rule extends_withI [where evs = "[CallDeleteDNSRecords n,
          SdkDelete (ResourceGroup r) (ZoneName r) RecordTypeA n]
          @ (if next_fault (azure_faults w) = None
             then [SdkDelete (ResourceGroup r) (ZoneName r) RecordTypeAAAA n] else [])"])
     (auto simp: DeleteDNSRecords_def RecordSets_Delete_def emit_def Let_def names_only_def
           split: option.splits)

lemma Update_names: "extends_with (names_only n) w (snd (Client_Update svc w))"
  by (rule extends_withI [where evs = "[K8sUpdate svc]"])
     (simp_all add: Client_Update_events names_only_def)

lemma Printf_names: "extends_with (names_only n) w (Printf m w)"
  by (rule extends_withI [where evs = "[LogPrintf m]"])
     (simp_all add: Printf_def emit_def names_only_def)

lemma Get_names: "extends_with (names_only n) w (snd (Client_Get w))"
  by (rule extends_withI [where evs = "[K8sGet]"])
     (simp_all add: Client_Get_def emit_def Let_def names_only_def split: option.splits)

lemma converge_names:
  "extends_with (names_only n) w (snd (Reconcile_converge r n svc w))"
proof -
  let ?m = "''Reconciling Service '' @ Namespace svc @ ''/'' @ Name svc @ '' ...'' @ [CHR 0x0A]"
  let ?svc1 = "AddFinalizer svc finalizer"
  obtain e1 w1 where u: "Client_Update ?svc1 (Printf ?m w) = (e1, w1)"
    by (cases "Client_Update ?svc1 (Printf ?m w)")
  have x1: "extends_with (names_only n) w w1"
    using extends_with_trans [OF Printf_names [of n w ?m] Update_names [of n "Printf ?m w" ?svc1]] u
    by simp
  obtain e2 w2 where p: "UpsertDNSRecords r n (ClusterIPs ?svc1) w1 = (e2, w2)"
    by (cases "UpsertDNSRecords r n (ClusterIPs ?svc1) w1")
  have x2: "extends_with (names_only n) w w2"
    using extends_with_trans [OF x1 Upsert_names [of n w1 r "ClusterIPs ?svc1"]] p by simp
  show ?thesis
  proof (cases e1)
    case (Some err)
    then have "Reconcile_converge r n svc w = (Some err, w1)"
      unfolding Reconcile_converge_def Let_def u by simp
    with x1 show ?thesis by simp
  next
    case None
    note upd_ok = None
    show ?thesis
    proof (cases e2)
      case (Some err)
      then have "Reconcile_converge r n svc w = (Some err, w2)"
        unfolding Reconcile_converge_def Let_def u using upd_ok p by simp
      with x2 show ?thesis by simp
    next
      case None
      then have "\<exists>m. Reconcile_converge r n svc w = (None, Printf m w2)"
        unfolding Reconcile_converge_def Let_def u using upd_ok p by simp blast
      then obtain m where "Reconcile_converge r n svc w = (None, Printf m w2)" ..
      with extends_with_trans [OF x2 Printf_names [of n w2 m]] show ?thesis by simp
    qed
  qed
qed

lemma converge_extends:
  "\<exists>evs. history (snd (Reconcile_converge r n svc w)) = history w @ evs"
  using extends_withD [OF converge_names [of n w r svc]] by blast

subsection \<open>The paths of Reconcile\<close>

lemma Reconcile_live:
  assumes "next_fault (k8s_faults w) = None" and "object w = Some svc"
    and "ClusterIP svc \<noteq> ''None''" and "DeletionTimestamp svc = None"
  shows "Reconcile r w = Reconcile_converge r (dnsName svc) svc
           (w\<lparr>history := history w @ [K8sGet], k8s_faults := tl (k8s_faults w)\<rparr>)"
    and "Reconcile_main r w = Reconcile_converge r (dnsName svc) svc
           (w\<lparr>history := history w @ [K8sGet], k8s_faults := tl (k8s_faults w)\<rparr>)"
  using assms
  by (simp_all add: Reconcile_def Reconcile_main_def Client_Get_ok)

lemma Reconcile_deleting:
  assumes "next_fault (k8s_faults w) = None" and "object w = Some svc"
    and "ClusterIP svc \<noteq> ''None''" and "DeletionTimestamp svc \<noteq> None"
  shows "finalizer \<in> set (Finalizers svc) \<Longrightarrow> Reconcile r w =
      (case DeleteDNSRecords r (dnsName svc)
              (w\<lparr>k8s_faults := tl (k8s_faults w),
                 history := history w @ [K8sGet,
                    LogPrintf (''Deleting Service '' @ Namespace svc @ ''/'' @ Name svc
                       @ '' ...'' @ [CHR 0x0A])]\<rparr>) of
         (Some err, w3) \<Rightarrow> (Some err, w3)
       | (None, w3) \<Rightarrow>
           (case Client_Update (RemoveFinalizer svc finalizer) w3 of
              (Some err, w4) \<Rightarrow> (Some err, w4)
            | (None, w4) \<Rightarrow>
                Reconcile_converge r (dnsName svc) (RemoveFinalizer svc finalizer) w4))"
    and "Reconcile_main r w =
      (case DeleteDNSRecords r (dnsName svc)
              (w\<lparr>k8s_faults := tl (k8s_faults w),
                 history := history w @ [K8sGet,
                    LogPrintf (''Deleting Service '' @ Namespace svc @ ''/'' @ Name svc
                       @ '' ...'' @ [CHR 0x0A])]\<rparr>) of
         (Some err, w3) \<Rightarrow> (Some err, w3)
       | (None, w3) \<Rightarrow>
           (case Client_Update (RemoveFinalizer svc finalizer) w3 of
              (Some err, w4) \<Rightarrow> (Some err, w4)
            | (None, w4) \<Rightarrow>
                Reconcile_converge r (dnsName svc) (RemoveFinalizer svc finalizer) w4))"
  using assms unfolding Reconcile_def Reconcile_main_def Let_def
  by (simp_all add: Client_Get_ok ContainsFinalizer_def Printf_def emit_def)

lemma Reconcile_headless:
  assumes "next_fault (k8s_faults w) = None" and "object w = Some svc"
    and "ClusterIP svc = ''None''"
  shows "Reconcile r w =
      (None, w\<lparr>history := history w @ [K8sGet,
                  LogPrintf (''Ignoring Headless service '' @ Namespace svc @ ''/'' @ Name svc)],
               k8s_faults := tl (k8s_faults w)\<rparr>)"
    and "Reconcile_main r w = Reconcile r w"
  using assms
  by (simp_all add: Reconcile_def Reconcile_main_def Client_Get_ok Printf_def emit_def)

lemma deleting_tail_names:
  assumes "extends_with (names_only n) w w2"
  shows "extends_with (names_only n) w
     (snd (case DeleteDNSRecords r n w2 of
         (Some err, w3) \<Rightarrow> (Some err, w3)
       | (None, w3) \<Rightarrow>
           (case Client_Update svc1 w3 of
              (Some err, w4) \<Rightarrow> (Some err, w4)
            | (None, w4) \<Rightarrow> Reconcile_converge r n svc1 w4)))"
proof -
  obtain e3 w3 where d: "DeleteDNSRecords r n w2 = (e3, w3)"
    by (cases "DeleteDNSRecords r n w2")
  have x3: "extends_with (names_only n) w w3"
    using extends_with_trans [OF assms Delete_names [of n w2 r]] d by simp
  obtain e4 w4 where u: "Client_Update svc1 w3 = (e4, w4)"
    by (cases "Client_Update svc1 w3")
  have x4: "extends_with (names_only n) w w4"
    using extends_with_trans [OF x3 Update_names [of n w3 svc1]] u by simp
  have x5: "extends_with (names_only n) w (snd (Reconcile_converge r n svc1 w4))"
    using extends_with_trans [OF x4 converge_names] .
  show ?thesis
    using d u x3 x4 x5 by (cases e3; cases e4) simp_all
qed

lemma Reconcile_names:
  assumes "R = Reconcile \<or> R = Reconcile_main" and "object w = Some svc"
  shows "extends_with (names_only (dnsName svc)) w (snd (R r w))"
proof (cases "next_fault (k8s_faults w)")
  case (Some e)
  then obtain w1 where g: "Client_Get w = (Inl e, w1)"
    by (simp add: Client_Get_def Let_def)
  then have "snd (R r w) = w1"
    using assms(1) by (auto simp: Reconcile_def Reconcile_main_def)
  with g show ?thesis
    using Get_names [of "dnsName svc" w] by simp
next
  case None
  let ?n = "dnsName svc"
  let ?w1 = "w\<lparr>history := history w @ [K8sGet], k8s_faults := tl (k8s_faults w)\<rparr>"
  have g: "extends_with (names_only ?n) w ?w1"
    by (rule extends_withI [where evs = "[K8sGet]"]) (simp_all add: names_only_def)
  show ?thesis
  proof (cases "ClusterIP svc = ''None''")
    case True
    show ?thesis
      using assms(1) Reconcile_headless [OF None assms(2) True, of r]
      by (auto intro!: extends_withI [where evs = "[K8sGet,
            LogPrintf (''Ignoring Headless service '' @ Namespace svc @ ''/'' @ Name svc)]"]
          simp: names_only_def)
  next
    case False
    note nothead = False
    show ?thesis
    proof (cases "DeletionTimestamp svc = None")
      case True
      have "R r w = Reconcile_converge r ?n svc ?w1"
        using assms(1) Reconcile_live [OF None assms(2) nothead True] by auto
      then show ?thesis
        using extends_with_trans [OF g converge_names [of ?n ?w1 r svc]] by simp
    next
      case False
      let ?w2 = "w\<lparr>k8s_faults := tl (k8s_faults w),
                 history := history w @ [K8sGet,
                    LogPrintf (''Deleting Service '' @ Namespace svc @ ''/'' @ Name svc
                       @ '' ...'' @ [CHR 0x0A])]\<rparr>"
      have g2: "extends_with (names_only ?n) w ?w2"
        by (rule extends_withI [where evs = "[K8sGet,
                    LogPrintf (''Deleting Service '' @ Namespace svc @ ''/'' @ Name svc
                       @ '' ...'' @ [CHR 0x0A])]"]) (simp_all add: names_only_def)
      note tail = deleting_tail_names [OF g2, of r "RemoveFinalizer svc finalizer"]
      show ?thesis
      proof (cases "R = Reconcile \<and> finalizer \<notin> set (Finalizers svc)")
        case True
        then have "R r w = (None, ?w1)"
          using None assms(2) nothead False
          by (simp add: Reconcile_def Client_Get_ok ContainsFinalizer_def)
        with g show ?thesis by simp
      next
        case False
        then have "R r w =
          (case DeleteDNSRecords r ?n ?w2 of
             (Some err, w3) \<Rightarrow> (Some err, w3)
           | (None, w3) \<Rightarrow>
               (case Client_Update (RemoveFinalizer svc finalizer) w3 of
                  (Some err, w4) \<Rightarrow> (Some err, w4)
                | (None, w4) \<Rightarrow>
                    Reconcile_converge r ?n (RemoveFinalizer svc finalizer) w4))"
          using assms(1) Reconcile_deleting [OF None assms(2) nothead \<open>DeletionTimestamp svc \<noteq> None\<close>, of r]
          by auto
        with tail show ?thesis by simp
      qed
    qed
  qed
qed

subsection \<open>One deletion, run to its end\<close>

lemmas run_defs = Reconcile_def Reconcile_main_def Reconcile_converge_def Client_Get_def
  Client_Update_def Printf_def ContainsFinalizer_def AddFinalizer_def RemoveFinalizer_def
  finalizer_def dnsName_def fmt_v_def classify_def strings_Count_def

lemmas fixture_defs = cfg0_def web_def world0_def web_deleting_def web_headless_def
  stale_world_def deleting_world_def web_headless_deleting_def

lemma deleting_run:
  "Reconcile cfg0 deleting_world =
     (None, deleting_world\<lparr>
        records := [(''rg'', ''cluster.local'', RecordTypeA, ''web.default.svc'') \<mapsto>
           \<lparr>TTL = Some 300, ARecords = [ARecord ''10.0.0.5''], AaaaRecords = []\<rparr>],
        history :=
          [K8sGet,
           LogPrintf (''Deleting Service default/web ...'' @ [CHR 0x0A]),
           CallDeleteDNSRecords ''web.default.svc'',
           SdkDelete ''rg'' ''cluster.local'' RecordTypeA ''web.default.svc'',
           SdkDelete ''rg'' ''cluster.local'' RecordTypeAAAA ''web.default.svc'',
           K8sUpdate (web_deleting\<lparr>Finalizers := []\<rparr>),
           LogPrintf (''Reconciling Service default/web ...'' @ [CHR 0x0A]),
           K8sUpdate web_deleting,
           CallUpsertDNSRecords ''web.default.svc'' [''10.0.0.5''],
           SdkCreateOrUpdate ''rg'' ''cluster.local'' RecordTypeA ''web.default.svc''
             \<lparr>TTL = Some 300, ARecords = [ARecord ''10.0.0.5''], AaaaRecords = []\<rparr>,
           LogPrintf ''Successfully updated DNS for headless Service default/web -> [10.0.0.5]'']\<rparr>)"
  by (simp add: run_defs client_defs fixture_defs)

lemma deleting_run_main: "Reconcile_main cfg0 deleting_world = Reconcile cfg0 deleting_world"
  by (simp add: run_defs client_defs fixture_defs)

section \<open>The DNS client: claims\<close>

text \<open>
  C5. \<^verbatim>\<open>UpsertDNSRecords\<close> is idempotent. Once a call has returned nil, a second call
  with the same name and address list leaves every record set of the zone as the first
  call left it, whatever the provider answers the second time. After the first call the
  record set of each kind with a non-empty bucket is exactly that bucket with TTL 300:
  the content that was there before is replaced, not extended, so repeating the call
  adds no duplicate entry and changes no TTL.
\<close>

theorem UpsertDNSRecords_idempotent:
  assumes "UpsertDNSRecords r n l w = (None, w1)"
  shows "records (snd (UpsertDNSRecords r n l w1)) = records w1
     \<and> (fst (classify l) \<noteq> [] \<longrightarrow>
          records w1 (ResourceGroup r, ZoneName r, RecordTypeA, n) =
            Some \<lparr>TTL = Some 300, ARecords = map ARecord (fst (classify l)), AaaaRecords = []\<rparr>)
     \<and> (snd (classify l) \<noteq> [] \<longrightarrow>
          records w1 (ResourceGroup r, ZoneName r, RecordTypeAAAA, n) =
            Some \<lparr>TTL = Some 300, ARecords = [], AaaaRecords = map AaaaRecord (snd (classify l))\<rparr>)"
  using assms
  by (auto simp: client_defs classify_filter aRecords_loop_map aaaaRecords_loop_map
           split: prod.splits option.splits if_splits)

theorem UpsertDNSRecords_idempotent_witness:
  "UpsertDNSRecords cfg0 ''web.default.svc'' [''10.0.0.5'', ''fd00::1''] stale_world =
     (None, snd (UpsertDNSRecords cfg0 ''web.default.svc'' [''10.0.0.5'', ''fd00::1''] stale_world))
   \<and> records (snd (UpsertDNSRecords cfg0 ''web.default.svc'' [''10.0.0.5'', ''fd00::1'']
        (snd (UpsertDNSRecords cfg0 ''web.default.svc'' [''10.0.0.5'', ''fd00::1''] stale_world)))) =
     records (snd (UpsertDNSRecords cfg0 ''web.default.svc'' [''10.0.0.5'', ''fd00::1''] stale_world))
   \<and> records (snd (UpsertDNSRecords cfg0 ''web.default.svc'' [''10.0.0.5'', ''fd00::1''] stale_world))
        (''rg'', ''cluster.local'', RecordTypeA, ''web.default.svc'') =
       Some \<lparr>TTL = Some 300, ARecords = [ARecord ''10.0.0.5''], AaaaRecords = []\<rparr>
   \<and> records (snd (UpsertDNSRecords cfg0 ''web.default.svc'' [''10.0.0.5'', ''fd00::1''] stale_world))
        (''rg'', ''cluster.local'', RecordTypeAAAA, ''web.default.svc'') =
       Some \<lparr>TTL = Some 300, ARecords = [], AaaaRecords = [AaaaRecord ''fd00::1'']\<rparr>"
proof -
  have ok: "UpsertDNSRecords cfg0 ''web.default.svc'' [''10.0.0.5'', ''fd00::1''] stale_world =
     (None, snd (UpsertDNSRecords cfg0 ''web.default.svc'' [''10.0.0.5'', ''fd00::1''] stale_world))"
    by (simp add: client_defs classify_def strings_Count_def stale_world_def world0_def cfg0_def)
  have cl: "classify [''10.0.0.5'', ''fd00::1''] = ([''10.0.0.5''], [''fd00::1''])"
    by (simp add: classify_def strings_Count_def)
  show ?thesis
    using ok UpsertDNSRecords_idempotent [OF ok] by (simp add: cl cfg0_def)
qed

text \<open>
  C6, as amended. The classification inside \<^verbatim>\<open>UpsertDNSRecords\<close> puts an address in
  the IPv6 bucket iff it contains two or more colon characters (that is, three or more
  colon-separated groups), and in the IPv4 bucket otherwise. The buckets are disjoint and
  their union is the whole input: no entry is dropped, malformed or not.
\<close>

theorem classify_buckets:
  "fst (classify ipList) = filter (\<lambda>ip. strings_Count ip CHR '':'' < 2) ipList
   \<and> snd (classify ipList) = filter (\<lambda>ip. 2 \<le> strings_Count ip CHR '':'') ipList
   \<and> snd (classify ipList) = filter (\<lambda>ip. 3 \<le> length (colon_groups ip)) ipList
   \<and> set (fst (classify ipList)) \<inter> set (snd (classify ipList)) = {}
   \<and> set (fst (classify ipList)) \<union> set (snd (classify ipList)) = set ipList"
proof -
  have "(\<lambda>ip. 3 \<le> length (colon_groups ip)) = (\<lambda>ip. 2 \<le> strings_Count ip CHR '':'')"
    by (auto simp: colon_groups_length)
  then show ?thesis
    by (auto simp: classify_filter not_le)
qed

text \<open>
  C6 as stated fails: \<^verbatim>\<open>10.0.0.5:53\<close> has two colon-separated groups and is not an
  address at all, yet it is kept, in the IPv4 bucket.
\<close>

theorem classify_groups_counterexample:
  "spec_is_ipv6 ''10.0.0.5:53''
   \<and> ''10.0.0.5:53'' \<notin> set (snd (classify [''10.0.0.5:53'']))
   \<and> ''10.0.0.5:53'' \<in> set (fst (classify [''10.0.0.5:53'']))"
  by (simp add: spec_is_ipv6_def classify_def strings_Count_def)

text \<open>
  C7, as amended. \<^verbatim>\<open>UpsertDNSRecords\<close> validates nothing: it adds to the history its
  own call and the provider calls only (no log line), the buckets it submits hold every
  input string, an error it returns is always an error of a provider call, and when the
  provider accepts the calls it returns nil and the zone holds each non-empty bucket in
  full.
\<close>

theorem UpsertDNSRecords_unvalidated:
  "added w (snd (UpsertDNSRecords r n l w)) =
     CallUpsertDNSRecords n l #
       (if fst (classify l) = [] then []
        else [SdkCreateOrUpdate (ResourceGroup r) (ZoneName r) RecordTypeA n
                \<lparr>TTL = Some 300, ARecords = map ARecord (fst (classify l)), AaaaRecords = []\<rparr>])
       @ (if snd (classify l) = [] \<or> (fst (classify l) \<noteq> [] \<and> next_fault (azure_faults w) \<noteq> None)
          then []
          else [SdkCreateOrUpdate (ResourceGroup r) (ZoneName r) RecordTypeAAAA n
                  \<lparr>TTL = Some 300, ARecords = [], AaaaRecords = map AaaaRecord (snd (classify l))\<rparr>])
   \<and> (\<forall>ev \<in> set (added w (snd (UpsertDNSRecords r n l w))). \<not> is_log ev)
   \<and> set (fst (classify l)) \<union> set (snd (classify l)) = set l
   \<and> (fst (UpsertDNSRecords r n l w) \<noteq> None \<longrightarrow>
        next_fault (azure_faults w) \<noteq> None \<or> next_fault (tl (azure_faults w)) \<noteq> None)
   \<and> (next_fault (azure_faults w) = None \<and> next_fault (tl (azure_faults w)) = None \<longrightarrow>
        fst (UpsertDNSRecords r n l w) = None
        \<and> (fst (classify l) \<noteq> [] \<longrightarrow>
             records (snd (UpsertDNSRecords r n l w)) (ResourceGroup r, ZoneName r, RecordTypeA, n) =
               Some \<lparr>TTL = Some 300, ARecords = map ARecord (fst (classify l)), AaaaRecords = []\<rparr>)
        \<and> (snd (classify l) \<noteq> [] \<longrightarrow>
             records (snd (UpsertDNSRecords r n l w)) (ResourceGroup r, ZoneName r, RecordTypeAAAA, n) =
               Some \<lparr>TTL = Some 300, ARecords = [], AaaaRecords = map AaaaRecord (snd (classify l))\<rparr>))"
proof -
  have "set (fst (classify l)) \<union> set (snd (classify l)) = set l"
    by (auto simp: classify_filter)
  then show ?thesis
    using Upsert_error_cause [where r=r and n=n and l=l and w=w]
      Upsert_accepted [where r=r and n=n and l=l and w=w]
    by (simp add: added_history [OF Upsert_history])
qed

theorem UpsertDNSRecords_unvalidated_witness:
  "added world0 (snd (UpsertDNSRecords cfg0 ''web.default.svc'' [''10.0.0.5'', ''not-an-ip''] world0)) =
     [CallUpsertDNSRecords ''web.default.svc'' [''10.0.0.5'', ''not-an-ip''],
      SdkCreateOrUpdate ''rg'' ''cluster.local'' RecordTypeA ''web.default.svc''
        \<lparr>TTL = Some 300, ARecords = [ARecord ''10.0.0.5'', ARecord ''not-an-ip''], AaaaRecords = []\<rparr>]
   \<and> fst (UpsertDNSRecords cfg0 ''web.default.svc'' [''10.0.0.5'', ''not-an-ip''] world0) = None
   \<and> records (snd (UpsertDNSRecords cfg0 ''web.default.svc'' [''10.0.0.5'', ''not-an-ip''] world0))
        (''rg'', ''cluster.local'', RecordTypeA, ''web.default.svc'') =
       Some \<lparr>TTL = Some 300, ARecords = [ARecord ''10.0.0.5'', ARecord ''not-an-ip''], AaaaRecords = []\<rparr>"
proof -
  have cl: "classify [''10.0.0.5'', ''not-an-ip''] = ([''10.0.0.5'', ''not-an-ip''], [])"
    by (simp add: classify_def strings_Count_def)
  have nf: "next_fault (azure_faults world0) = None" "next_fault (tl (azure_faults world0)) = None"
    by (simp_all add: world0_def next_fault_def)
  show ?thesis
    using UpsertDNSRecords_unvalidated [of world0 cfg0 "''web.default.svc''" "[''10.0.0.5'', ''not-an-ip'']"]
      nf
    by (simp add: cl cfg0_def)
qed

text \<open>
  C7 as stated fails: the string \<^verbatim>\<open>not-an-ip\<close> is sent to the provider inside the A
  record set, stored there, and nothing is logged.
\<close>

theorem UpsertDNSRecords_malformed_counterexample:
  "UpsertDNSRecords cfg0 ''web.default.svc'' [''10.0.0.5'', ''not-an-ip''] world0 =
     (None, world0\<lparr>
        records := [(''rg'', ''cluster.local'', RecordTypeA, ''web.default.svc'') \<mapsto>
           \<lparr>TTL = Some 300, ARecords = [ARecord ''10.0.0.5'', ARecord ''not-an-ip''],
             AaaaRecords = []\<rparr>],
        history := [CallUpsertDNSRecords ''web.default.svc'' [''10.0.0.5'', ''not-an-ip''],
           SdkCreateOrUpdate ''rg'' ''cluster.local'' RecordTypeA ''web.default.svc''
             \<lparr>TTL = Some 300, ARecords = [ARecord ''10.0.0.5'', ARecord ''not-an-ip''],
               AaaaRecords = []\<rparr>]\<rparr>)"
  by (simp add: client_defs classify_def strings_Count_def world0_def cfg0_def)

text \<open>
  C8, as amended. \<^verbatim>\<open>UpsertDNSRecords\<close> with an empty address list makes no provider
  call, returns nil and leaves every record set of the zone as it was.
\<close>

theorem UpsertDNSRecords_empty:
  "UpsertDNSRecords r n [] w = (None, w\<lparr>history := history w @ [CallUpsertDNSRecords n []]\<rparr>)
   \<and> records (snd (UpsertDNSRecords r n [] w)) = records w"
  by (simp add: UpsertDNSRecords_def classify_def emit_def)

text \<open>
  C8 as stated fails: a record set stored earlier for the name survives the call with an
  empty list, and it survives the reconcile of a Service whose address list is empty.
\<close>

theorem UpsertDNSRecords_empty_counterexample:
  "records (snd (UpsertDNSRecords cfg0 ''web.default.svc'' [] stale_world))
     (''rg'', ''cluster.local'', RecordTypeA, ''web.default.svc'') =
       Some \<lparr>TTL = Some 300, ARecords = [ARecord ''10.0.0.9''], AaaaRecords = []\<rparr>
   \<and> Reconcile cfg0 (stale_world\<lparr>object := Some (web\<lparr>ClusterIP := [], ClusterIPs := []\<rparr>)\<rparr>) =
       (None, stale_world\<lparr>object := Some (web\<lparr>ClusterIP := [], ClusterIPs := [],
                                               Finalizers := [''dns.azure.com'']\<rparr>),
          history := [K8sGet, LogPrintf (''Reconciling Service default/web ...'' @ [CHR 0x0A]),
            K8sUpdate (web\<lparr>ClusterIP := [], ClusterIPs := [], Finalizers := [''dns.azure.com'']\<rparr>),
            CallUpsertDNSRecords ''web.default.svc'' [],
            LogPrintf ''Successfully updated DNS for headless Service default/web -> []'']\<rparr>)"
  by (simp add: UpsertDNSRecords_def classify_def emit_def stale_world_def world0_def cfg0_def web_def
        Reconcile_def Reconcile_converge_def Client_Get_def Client_Update_def next_fault_def
        Printf_def AddFinalizer_def finalizer_def dnsName_def fmt_v_def Let_def)

text \<open>
  C10. \<^verbatim>\<open>DeleteDNSRecords\<close> asks for the deletion of the A record set first and for
  the deletion of the AAAA record set only if the first succeeded. It returns nil exactly
  when both deletions succeed. When the A deletion fails no record set is changed (the
  AAAA record set in particular), and when nil is returned both record sets are gone.
\<close>

theorem DeleteDNSRecords_sequence:
  "added w (snd (DeleteDNSRecords r n w)) =
      [CallDeleteDNSRecords n, SdkDelete (ResourceGroup r) (ZoneName r) RecordTypeA n]
      @ (if next_fault (azure_faults w) = None
         then [SdkDelete (ResourceGroup r) (ZoneName r) RecordTypeAAAA n] else [])
   \<and> (fst (DeleteDNSRecords r n w) = None \<longleftrightarrow>
        next_fault (azure_faults w) = None \<and> next_fault (tl (azure_faults w)) = None)
   \<and> (next_fault (azure_faults w) \<noteq> None \<longrightarrow>
        records (snd (DeleteDNSRecords r n w)) = records w)
   \<and> (fst (DeleteDNSRecords r n w) = None \<longrightarrow>
        records (snd (DeleteDNSRecords r n w)) (ResourceGroup r, ZoneName r, RecordTypeA, n) = None
        \<and> records (snd (DeleteDNSRecords r n w)) (ResourceGroup r, ZoneName r, RecordTypeAAAA, n) = None)"
  by (auto simp: DeleteDNSRecords_def RecordSets_Delete_def emit_def Let_def added_def
           split: option.splits)

theorem DeleteDNSRecords_sequence_witness:
  "added (stale_world\<lparr>azure_faults := [Some (ProviderError ''throttled'')]\<rparr>)
     (snd (DeleteDNSRecords cfg0 ''web.default.svc''
        (stale_world\<lparr>azure_faults := [Some (ProviderError ''throttled'')]\<rparr>))) =
     [CallDeleteDNSRecords ''web.default.svc'',
      SdkDelete ''rg'' ''cluster.local'' RecordTypeA ''web.default.svc'']
   \<and> fst (DeleteDNSRecords cfg0 ''web.default.svc''
        (stale_world\<lparr>azure_faults := [Some (ProviderError ''throttled'')]\<rparr>)) \<noteq> None
   \<and> records (snd (DeleteDNSRecords cfg0 ''web.default.svc''
        (stale_world\<lparr>azure_faults := [Some (ProviderError ''throttled'')]\<rparr>))) = records stale_world
   \<and> fst (DeleteDNSRecords cfg0 ''web.default.svc'' stale_world) = None
   \<and> records (snd (DeleteDNSRecords cfg0 ''web.default.svc'' stale_world))
        (''rg'', ''cluster.local'', RecordTypeA, ''web.default.svc'') = None"
  using DeleteDNSRecords_sequence [of "stale_world\<lparr>azure_faults := [Some (ProviderError ''throttled'')]\<rparr>"
          cfg0 "''web.default.svc''"]
        DeleteDNSRecords_sequence [of stale_world cfg0 "''web.default.svc''"]
  by (simp add: stale_world_def world0_def cfg0_def next_fault_def)

section \<open>The reconciler: claims\<close>

text \<open>
  C1, as amended. For every Service that is not headless, has a deletion timestamp and
  carries the finalizer, in both versions of \<^verbatim>\<open>Reconcile\<close>: the reconcile fetches the
  Service, logs, and calls \<^verbatim>\<open>DeleteDNSRecords\<close> for the resolved name before anything
  else. If a deletion fails, the reconcile returns that error (wrapped as the DNS client
  wraps it), issues no Service update at all, and the stored Service is unchanged, the
  finalizer still on it. If both deletions succeed, the next call is the Service update
  that carries the Service without the finalizer. So the finalizer is removed and the
  update sent only after a Delete that returned no error.
\<close>

theorem Reconcile_delete_before_finalizer_removal:
  assumes "R = Reconcile \<or> R = Reconcile_main"
    and "next_fault (k8s_faults w) = None" and "object w = Some svc"
    and "ClusterIP svc \<noteq> ''None''" and "DeletionTimestamp svc \<noteq> None"
    and "finalizer \<in> set (Finalizers svc)"
  shows "take 4 (added w (snd (R r w))) =
           [K8sGet,
            LogPrintf (''Deleting Service '' @ Namespace svc @ ''/'' @ Name svc
               @ '' ...'' @ [CHR 0x0A]),
            CallDeleteDNSRecords (dnsName svc),
            SdkDelete (ResourceGroup r) (ZoneName r) RecordTypeA (dnsName svc)]
       \<and> (\<forall>e. next_fault (azure_faults w) = Some e \<longrightarrow>
            fst (R r w) = Some (Errorf ''error deleting A records'' e))
       \<and> (\<forall>e. next_fault (azure_faults w) = None \<and> next_fault (tl (azure_faults w)) = Some e \<longrightarrow>
            fst (R r w) = Some (Errorf ''error deleting AAAA records'' e))
       \<and> (next_fault (azure_faults w) \<noteq> None \<or> next_fault (tl (azure_faults w)) \<noteq> None \<longrightarrow>
            (\<forall>ev \<in> set (added w (snd (R r w))). \<not> is_update ev)
            \<and> object (snd (R r w)) = Some svc)
       \<and> (next_fault (azure_faults w) = None \<and> next_fault (tl (azure_faults w)) = None \<longrightarrow>
            take 6 (added w (snd (R r w))) =
              [K8sGet,
               LogPrintf (''Deleting Service '' @ Namespace svc @ ''/'' @ Name svc
                  @ '' ...'' @ [CHR 0x0A]),
               CallDeleteDNSRecords (dnsName svc),
               SdkDelete (ResourceGroup r) (ZoneName r) RecordTypeA (dnsName svc),
               SdkDelete (ResourceGroup r) (ZoneName r) RecordTypeAAAA (dnsName svc),
               K8sUpdate (RemoveFinalizer svc finalizer)]
            \<and> finalizer \<notin> set (Finalizers (RemoveFinalizer svc finalizer)))"
proof -
  let ?n = "dnsName svc"
  let ?svc1 = "RemoveFinalizer svc finalizer"
  let ?w2 = "w\<lparr>k8s_faults := tl (k8s_faults w),
             history := history w @ [K8sGet,
                LogPrintf (''Deleting Service '' @ Namespace svc @ ''/'' @ Name svc
                   @ '' ...'' @ [CHR 0x0A])]\<rparr>"
  have R: "R r w =
      (case DeleteDNSRecords r ?n ?w2 of
         (Some err, w3) \<Rightarrow> (Some err, w3)
       | (None, w3) \<Rightarrow>
           (case Client_Update ?svc1 w3 of
              (Some err, w4) \<Rightarrow> (Some err, w4)
            | (None, w4) \<Rightarrow> Reconcile_converge r ?n ?svc1 w4))"
    using assms(1) Reconcile_deleting [OF assms(2-5), of r] assms(6) by auto
  have fin: "finalizer \<notin> set (Finalizers ?svc1)"
    by (simp add: RemoveFinalizer_def)
  consider (a) e where "next_fault (azure_faults w) = Some e"
    | (b) e where "next_fault (azure_faults w) = None" "next_fault (tl (azure_faults w)) = Some e"
    | (c) "next_fault (azure_faults w) = None" "next_fault (tl (azure_faults w)) = None"
    by (cases "next_fault (azure_faults w)"; cases "next_fault (tl (azure_faults w))") auto
  then show ?thesis
  proof cases
    case a
    then have "next_fault (azure_faults ?w2) = Some e" by simp
    from Delete_A_failed [OF this, of r ?n] R a assms(3) show ?thesis
      by (simp add: added_def)
  next
    case b
    then have "next_fault (azure_faults ?w2) = None" "next_fault (tl (azure_faults ?w2)) = Some e"
      by simp_all
    from Delete_AAAA_failed [OF this, of r ?n] R b assms(3) show ?thesis
      by (simp add: added_def)
  next
    case c
    then have "next_fault (azure_faults ?w2) = None" "next_fault (tl (azure_faults ?w2)) = None"
      by simp_all
    from Delete_ok [OF this, of r ?n] obtain w3 where
      d: "DeleteDNSRecords r ?n ?w2 = (None, w3)"
      and h3: "history w3 = history w @ [K8sGet,
                LogPrintf (''Deleting Service '' @ Namespace svc @ ''/'' @ Name svc
                   @ '' ...'' @ [CHR 0x0A]),
                CallDeleteDNSRecords ?n,
                SdkDelete (ResourceGroup r) (ZoneName r) RecordTypeA ?n,
                SdkDelete (ResourceGroup r) (ZoneName r) RecordTypeAAAA ?n]"
      by simp
    obtain e4 w4 where u: "Client_Update ?svc1 w3 = (e4, w4)"
      by (cases "Client_Update ?svc1 w3")
    have h4: "history w4 = history w3 @ [K8sUpdate ?svc1]"
      using Client_Update_events [of ?svc1 w3] u by simp
    have "\<exists>evs. history (snd (R r w)) = history w4 @ evs"
    proof (cases e4)
      case None
      then have "R r w = Reconcile_converge r ?n ?svc1 w4"
        using R d u by simp
      then show ?thesis
        using converge_extends [of r ?n ?svc1 w4] by simp
    next
      case (Some err)
      then have "R r w = (Some err, w4)"
        using R d u by simp
      then show ?thesis by simp
    qed
    then obtain evs where "history (snd (R r w)) = history w4 @ evs" ..
    with h3 h4 c fin show ?thesis
      by (simp add: added_def)
  qed
qed

theorem Reconcile_delete_before_finalizer_removal_witness:
  "take 6 (added deleting_world (snd (Reconcile cfg0 deleting_world))) =
     [K8sGet,
      LogPrintf (''Deleting Service default/web ...'' @ [CHR 0x0A]),
      CallDeleteDNSRecords ''web.default.svc'',
      SdkDelete ''rg'' ''cluster.local'' RecordTypeA ''web.default.svc'',
      SdkDelete ''rg'' ''cluster.local'' RecordTypeAAAA ''web.default.svc'',
      K8sUpdate (web_deleting\<lparr>Finalizers := []\<rparr>)]
   \<and> fst (Reconcile_main cfg0 throttled_world) =
       Some (Errorf ''error deleting A records'' (ProviderError ''throttled''))
   \<and> object (snd (Reconcile_main cfg0 throttled_world)) = Some web_deleting
   \<and> take 4 (added throttled_world (snd (Reconcile_main cfg0 throttled_world))) =
       [K8sGet,
        LogPrintf (''Deleting Service default/web ...'' @ [CHR 0x0A]),
        CallDeleteDNSRecords ''web.default.svc'',
        SdkDelete ''rg'' ''cluster.local'' RecordTypeA ''web.default.svc'']"
proof -
  have k: "next_fault (k8s_faults deleting_world) = None"
      "next_fault (k8s_faults throttled_world) = None"
    and ob: "object deleting_world = Some web_deleting"
      "object throttled_world = Some web_deleting"
    and az: "next_fault (azure_faults deleting_world) = None"
      "next_fault (tl (azure_faults deleting_world)) = None"
      "next_fault (azure_faults throttled_world) = Some (ProviderError ''throttled'')"
    by (simp_all add: throttled_world_def deleting_world_def world0_def next_fault_def)
  have sv: "ClusterIP web_deleting \<noteq> ''None''" "DeletionTimestamp web_deleting \<noteq> None"
      "finalizer \<in> set (Finalizers web_deleting)"
    by (simp_all add: web_deleting_def web_def finalizer_def)
  have v: "RemoveFinalizer web_deleting finalizer = web_deleting\<lparr>Finalizers := []\<rparr>"
    "dnsName web_deleting = ''web.default.svc''"
    "Namespace web_deleting = ''default''" "Name web_deleting = ''web''"
    "ResourceGroup cfg0 = ''rg''" "ZoneName cfg0 = ''cluster.local''"
    by (simp_all add: RemoveFinalizer_def finalizer_def dnsName_def web_deleting_def web_def cfg0_def)
  show ?thesis
    using Reconcile_delete_before_finalizer_removal
            [of Reconcile deleting_world web_deleting cfg0, OF _ k(1) ob(1) sv]
          Reconcile_delete_before_finalizer_removal
            [of Reconcile_main throttled_world web_deleting cfg0, OF _ k(2) ob(2) sv]
          az
    by (simp add: v)
qed

text \<open>
  C1 as stated fails for a headless Service: with a deletion timestamp and the finalizer
  present, the reconcile still returns at the headless test, and Delete is never called.
\<close>

theorem Reconcile_headless_deleting_counterexample:
  "ClusterIP web_headless_deleting = ''None''
   \<and> DeletionTimestamp web_headless_deleting \<noteq> None
   \<and> finalizer \<in> set (Finalizers web_headless_deleting)
   \<and> Reconcile cfg0 (world0\<lparr>object := Some web_headless_deleting\<rparr>) =
       (None, world0\<lparr>object := Some web_headless_deleting,
                     history := [K8sGet, LogPrintf ''Ignoring Headless service default/web'']\<rparr>)
   \<and> Reconcile_main cfg0 (world0\<lparr>object := Some web_headless_deleting\<rparr>) =
       (None, world0\<lparr>object := Some web_headless_deleting,
                     history := [K8sGet, LogPrintf ''Ignoring Headless service default/web'']\<rparr>)"
  by (simp add: run_defs client_defs fixture_defs)

text \<open>
  C2 fails on the code. The deletion block of \<^verbatim>\<open>Reconcile\<close> has no return after its
  \<^verbatim>\<open>Update\<close>, so a Service with a deletion timestamp and the finalizer, whose records
  were deleted and whose finalizer was removed, runs on into the convergence statements:
  the finalizer is added again and sent in a second update, and \<^verbatim>\<open>UpsertDNSRecords\<close>
  writes the A record set that was just deleted; the reconcile returns nil. When the
  second update is refused instead, the update carrying the finalizer has still been
  sent and the reconcile returns that error. The version in \<^verbatim>\<open>main.go\<close> behaves the
  same, and it also calls Delete when the finalizer is absent, where the reconciler's
  own file returns at once.
\<close>

theorem Reconcile_deleting_falls_through:
  "fst (Reconcile cfg0 deleting_world) = None
   \<and> added deleting_world (snd (Reconcile cfg0 deleting_world)) =
       [K8sGet,
        LogPrintf (''Deleting Service default/web ...'' @ [CHR 0x0A]),
        CallDeleteDNSRecords ''web.default.svc'',
        SdkDelete ''rg'' ''cluster.local'' RecordTypeA ''web.default.svc'',
        SdkDelete ''rg'' ''cluster.local'' RecordTypeAAAA ''web.default.svc'',
        K8sUpdate (web_deleting\<lparr>Finalizers := []\<rparr>),
        LogPrintf (''Reconciling Service default/web ...'' @ [CHR 0x0A]),
        K8sUpdate (web_deleting\<lparr>Finalizers := [''dns.azure.com'']\<rparr>),
        CallUpsertDNSRecords ''web.default.svc'' [''10.0.0.5''],
        SdkCreateOrUpdate ''rg'' ''cluster.local'' RecordTypeA ''web.default.svc''
          \<lparr>TTL = Some 300, ARecords = [ARecord ''10.0.0.5''], AaaaRecords = []\<rparr>,
        LogPrintf ''Successfully updated DNS for headless Service default/web -> [10.0.0.5]'']
   \<and> object (snd (Reconcile cfg0 deleting_world)) =
       Some (web_deleting\<lparr>Finalizers := [''dns.azure.com'']\<rparr>)
   \<and> records (snd (Reconcile cfg0 deleting_world))
        (''rg'', ''cluster.local'', RecordTypeA, ''web.default.svc'') =
       Some \<lparr>TTL = Some 300, ARecords = [ARecord ''10.0.0.5''], AaaaRecords = []\<rparr>
   \<and> Reconcile_main cfg0 deleting_world = Reconcile cfg0 deleting_world
   \<and> fst (Reconcile cfg0 (deleting_world\<lparr>k8s_faults :=
            [None, None, Some (ApiError ''no new finalizers can be added'')]\<rparr>)) =
       Some (ApiError ''no new finalizers can be added'')
   \<and> K8sUpdate (web_deleting\<lparr>Finalizers := [''dns.azure.com'']\<rparr>) \<in>
       set (history (snd (Reconcile cfg0 (deleting_world\<lparr>k8s_faults :=
            [None, None, Some (ApiError ''no new finalizers can be added'')]\<rparr>))))
   \<and> CallDeleteDNSRecords ''web.default.svc'' \<in>
       set (history (snd (Reconcile_main cfg0
              (world0\<lparr>object := Some (web\<lparr>DeletionTimestamp := Some 1\<rparr>)\<rparr>))))
   \<and> Reconcile cfg0 (world0\<lparr>object := Some (web\<lparr>DeletionTimestamp := Some 1\<rparr>)\<rparr>) =
       (None, world0\<lparr>object := Some (web\<lparr>DeletionTimestamp := Some 1\<rparr>), history := [K8sGet]\<rparr>)"
proof -
  have 1: "web_deleting\<lparr>Finalizers := [''dns.azure.com'']\<rparr> = web_deleting"
    by (simp add: web_deleting_def)
  have 2: "fst (Reconcile cfg0 (deleting_world\<lparr>k8s_faults :=
            [None, None, Some (ApiError ''no new finalizers can be added'')]\<rparr>)) =
       Some (ApiError ''no new finalizers can be added'')"
    by (simp add: run_defs client_defs fixture_defs)
  have 3: "K8sUpdate web_deleting \<in>
       set (history (snd (Reconcile cfg0 (deleting_world\<lparr>k8s_faults :=
            [None, None, Some (ApiError ''no new finalizers can be added'')]\<rparr>))))"
    by (simp add: run_defs client_defs fixture_defs)
  have 4: "CallDeleteDNSRecords ''web.default.svc'' \<in>
       set (history (snd (Reconcile_main cfg0
              (world0\<lparr>object := Some (web\<lparr>DeletionTimestamp := Some 1\<rparr>)\<rparr>))))"
    by (simp add: run_defs client_defs fixture_defs)
  have 5: "Reconcile cfg0 (world0\<lparr>object := Some (web\<lparr>DeletionTimestamp := Some 1\<rparr>)\<rparr>) =
       (None, world0\<lparr>object := Some (web\<lparr>DeletionTimestamp := Some 1\<rparr>), history := [K8sGet]\<rparr>)"
    by (simp add: run_defs client_defs fixture_defs)
  have 6: "history deleting_world = []" "object deleting_world = Some web_deleting"
    by (simp_all add: deleting_world_def world0_def)
  show ?thesis
    unfolding 1 using 2 3 4 5 6 deleting_run_main
    by (simp add: deleting_run added_def)
qed

text \<open>
  C3. For every Service that is not headless and has no deletion timestamp, in both
  versions of \<^verbatim>\<open>Reconcile\<close>: the first three steps are the fetch, a log line and the
  update of the Service carrying the finalizer, so no upsert precedes that update. If the
  update fails, the reconcile returns its error, nothing follows (no upsert is made) and
  the stored Service is unchanged. If it succeeds, the Service with the finalizer is
  stored, and the call of \<^verbatim>\<open>UpsertDNSRecords\<close> for the resolved name comes right after.
\<close>

theorem Reconcile_finalizer_before_upsert:
  assumes "R = Reconcile \<or> R = Reconcile_main"
    and "next_fault (k8s_faults w) = None" and "object w = Some svc"
    and "ClusterIP svc \<noteq> ''None''" and "DeletionTimestamp svc = None"
  shows "finalizer \<in> set (Finalizers (AddFinalizer svc finalizer))
       \<and> take 3 (added w (snd (R r w))) =
           [K8sGet,
            LogPrintf (''Reconciling Service '' @ Namespace svc @ ''/'' @ Name svc
               @ '' ...'' @ [CHR 0x0A]),
            K8sUpdate (AddFinalizer svc finalizer)]
       \<and> (next_fault (tl (k8s_faults w)) \<noteq> None \<longrightarrow>
            fst (R r w) = next_fault (tl (k8s_faults w))
            \<and> length (added w (snd (R r w))) = 3
            \<and> (\<forall>ev \<in> set (added w (snd (R r w))). \<not> is_upsert ev)
            \<and> object (snd (R r w)) = Some svc)
       \<and> (next_fault (tl (k8s_faults w)) = None \<longrightarrow>
            object (snd (R r w)) = Some (AddFinalizer svc finalizer)
            \<and> take 1 (drop 3 (added w (snd (R r w)))) =
                [CallUpsertDNSRecords (dnsName svc) (ClusterIPs svc)])"
proof -
  let ?w1 = "w\<lparr>history := history w @ [K8sGet], k8s_faults := tl (k8s_faults w)\<rparr>"
  have R: "R r w = Reconcile_converge r (dnsName svc) svc ?w1"
    using assms(1) Reconcile_live [OF assms(2-5)] by auto
  have fin: "finalizer \<in> set (Finalizers (AddFinalizer svc finalizer))"
    by (simp add: AddFinalizer_def)
  show ?thesis
  proof (cases "next_fault (tl (k8s_faults w))")
    case (Some e)
    then have "next_fault (k8s_faults ?w1) = Some e" by simp
    from converge_failed [OF this] R Some fin assms(3) show ?thesis
      by (simp add: added_def)
  next
    case None
    then have nf: "next_fault (k8s_faults ?w1) = None" by simp
    have ob: "object ?w1 = Some svc" using assms(3) by simp
    from converge_ok [OF nf ob, of r "dnsName svc" svc] R
    obtain evs where "history (snd (R r w)) =
            history w @
              [K8sGet, LogPrintf (''Reconciling Service '' @ Namespace svc @ ''/'' @ Name svc
                 @ '' ...'' @ [CHR 0x0A]),
               K8sUpdate (AddFinalizer svc finalizer),
               CallUpsertDNSRecords (dnsName svc) (ClusterIPs svc)] @ evs"
      and "object (snd (R r w)) = Some (AddFinalizer svc finalizer)"
      by auto
    with None fin show ?thesis
      by (simp add: added_def)
  qed
qed

theorem Reconcile_finalizer_before_upsert_witness:
  "take 3 (added (world0\<lparr>object := Some web\<rparr>) (snd (Reconcile cfg0 (world0\<lparr>object := Some web\<rparr>)))) =
     [K8sGet, LogPrintf (''Reconciling Service default/web ...'' @ [CHR 0x0A]),
      K8sUpdate (web\<lparr>Finalizers := [''dns.azure.com'']\<rparr>)]
   \<and> take 1 (drop 3 (added (world0\<lparr>object := Some web\<rparr>)
         (snd (Reconcile cfg0 (world0\<lparr>object := Some web\<rparr>))))) =
       [CallUpsertDNSRecords ''web.default.svc'' [''10.0.0.5'']]
   \<and> object (snd (Reconcile cfg0 (world0\<lparr>object := Some web\<rparr>))) =
       Some (web\<lparr>Finalizers := [''dns.azure.com'']\<rparr>)"
proof -
  have h1: "next_fault (k8s_faults (world0\<lparr>object := Some web\<rparr>)) = None"
    and h1': "next_fault (tl (k8s_faults (world0\<lparr>object := Some web\<rparr>))) = None"
    and h2: "object (world0\<lparr>object := Some web\<rparr>) = Some web"
    by (simp_all add: world0_def next_fault_def)
  have h3: "ClusterIP web \<noteq> ''None''" and h4: "DeletionTimestamp web = None"
    by (simp_all add: web_def)
  have v: "AddFinalizer web finalizer = web\<lparr>Finalizers := [''dns.azure.com'']\<rparr>"
    "dnsName web = ''web.default.svc''" "ClusterIPs web = [''10.0.0.5'']"
    "Namespace web = ''default''" "Name web = ''web''"
    by (simp_all add: AddFinalizer_def finalizer_def dnsName_def web_def)
  show ?thesis
    using Reconcile_finalizer_before_upsert [of Reconcile "world0\<lparr>object := Some web\<rparr>" web cfg0,
            OF _ h1 h2 h3 h4] h1'
    by (simp add: v)
qed

text \<open>
  C4. For every Service whose \<^verbatim>\<open>ClusterIP\<close> is \<^verbatim>\<open>"None"\<close>, in both versions of
  \<^verbatim>\<open>Reconcile\<close>: the reconcile returns nil, and all it does is fetch the Service and
  write one log line. It makes no upsert and no delete call, sends no Service update
  (so it adds no finalizer), and leaves the stored Service and every record set as they
  were.
\<close>

theorem Reconcile_headless_skipped:
  assumes "R = Reconcile \<or> R = Reconcile_main"
    and "next_fault (k8s_faults w) = None" and "object w = Some svc"
    and "ClusterIP svc = ''None''"
  shows "fst (R r w) = None
       \<and> added w (snd (R r w)) =
           [K8sGet, LogPrintf (''Ignoring Headless service '' @ Namespace svc @ ''/'' @ Name svc)]
       \<and> (\<forall>ev \<in> set (added w (snd (R r w))).
             \<not> is_upsert ev \<and> \<not> is_delete ev \<and> \<not> is_update ev)
       \<and> object (snd (R r w)) = Some svc
       \<and> records (snd (R r w)) = records w"
proof -
  have "R r w =
      (None, w\<lparr>history := history w @ [K8sGet,
                  LogPrintf (''Ignoring Headless service '' @ Namespace svc @ ''/'' @ Name svc)],
               k8s_faults := tl (k8s_faults w)\<rparr>)"
    using assms(1) Reconcile_headless [OF assms(2-4), of r] by auto
  then show ?thesis
    using assms(3) by (simp add: added_def)
qed

theorem Reconcile_headless_skipped_witness:
  "fst (Reconcile cfg0 (stale_world\<lparr>object := Some web_headless\<rparr>)) = None
   \<and> added (stale_world\<lparr>object := Some web_headless\<rparr>)
        (snd (Reconcile cfg0 (stale_world\<lparr>object := Some web_headless\<rparr>))) =
       [K8sGet, LogPrintf ''Ignoring Headless service default/web'']
   \<and> object (snd (Reconcile cfg0 (stale_world\<lparr>object := Some web_headless\<rparr>))) = Some web_headless
   \<and> records (snd (Reconcile cfg0 (stale_world\<lparr>object := Some web_headless\<rparr>))) = records stale_world
   \<and> fst (Reconcile_main cfg0 (stale_world\<lparr>object := Some web_headless\<rparr>)) = None"
proof -
  have k: "next_fault (k8s_faults (stale_world\<lparr>object := Some web_headless\<rparr>)) = None"
    and ob: "object (stale_world\<lparr>object := Some web_headless\<rparr>) = Some web_headless"
    and rc: "records (stale_world\<lparr>object := Some web_headless\<rparr>) = records stale_world"
    by (simp_all add: stale_world_def world0_def next_fault_def)
  have hl: "ClusterIP web_headless = ''None''"
    and nm: "Namespace web_headless = ''default''" "Name web_headless = ''web''"
    by (simp_all add: web_headless_def web_def)
  show ?thesis
    using Reconcile_headless_skipped
            [of Reconcile "stale_world\<lparr>object := Some web_headless\<rparr>" web_headless cfg0,
             OF _ k ob hl]
          Reconcile_headless_skipped
            [of Reconcile_main "stale_world\<lparr>object := Some web_headless\<rparr>" web_headless cfg0,
             OF _ k ob hl]
    by (simp add: nm rc)
qed

text \<open>
  C9. The DNS name of a Service is \<^verbatim>\<open><name>.<namespace>.svc\<close>, a function of its name
  and namespace alone: no other field (labels, annotations, deletion timestamp,
  finalizers, addresses) has any influence, and a Service \<^verbatim>\<open>api\<close> in namespace \<^verbatim>\<open>prod\<close>
  maps to \<^verbatim>\<open>api.prod.svc\<close>. Whatever the state of the cluster, of the zone and of the
  pending faults, every DNS call that a reconcile of the Service makes, in both versions
  of \<^verbatim>\<open>Reconcile\<close>, carries exactly that name.
\<close>

theorem dnsName_deterministic:
  "dnsName (svc\<lparr>Labels := l, Annotations := a, DeletionTimestamp := d, Finalizers := f,
                 ClusterIP := c, ClusterIPs := cs\<rparr>) = Name svc @ ''.'' @ Namespace svc @ ''.svc''
   \<and> dnsName \<lparr>Name = ''api'', Namespace = ''prod'', Labels = l, Annotations = a,
               DeletionTimestamp = d, Finalizers = f, ClusterIP = c, ClusterIPs = cs\<rparr>
       = ''api.prod.svc''
   \<and> ((R = Reconcile \<or> R = Reconcile_main) \<and> object w = Some svc \<longrightarrow>
        (\<forall>ev \<in> set (added w (snd (R r w))).
           dns_name_of ev = None
           \<or> dns_name_of ev = Some (Name svc @ ''.'' @ Namespace svc @ ''.svc'')))"
proof -
  have "(R = Reconcile \<or> R = Reconcile_main) \<and> object w = Some svc \<longrightarrow>
        (\<forall>ev \<in> set (added w (snd (R r w))). names_only (dnsName svc) ev)"
    using Reconcile_names [of R w svc r] extends_with_added by blast
  then show ?thesis
    by (simp add: dnsName_def names_only_def)
qed

theorem dnsName_deterministic_witness:
  "object deleting_world = Some web_deleting
   \<and> CallUpsertDNSRecords ''web.default.svc'' [''10.0.0.5'']
        \<in> set (added deleting_world (snd (Reconcile cfg0 deleting_world)))
   \<and> dns_name_of (CallUpsertDNSRecords ''web.default.svc'' [''10.0.0.5'']) =
        Some (Name web_deleting @ ''.'' @ Namespace web_deleting @ ''.svc'')
   \<and> dnsName (web_deleting\<lparr>Labels := [(''tier'', ''front'')], Annotations := [],
        DeletionTimestamp := None, Finalizers := [], ClusterIP := ''10.0.0.9'',
        ClusterIPs := [''10.0.0.9'']\<rparr>) = ''web.default.svc''"
proof -
  have ob: "object deleting_world = Some web_deleting"
    by (simp add: deleting_world_def world0_def)
  have mem: "CallUpsertDNSRecords ''web.default.svc'' [''10.0.0.5'']
        \<in> set (added deleting_world (snd (Reconcile cfg0 deleting_world)))"
  proof -
    have "history deleting_world = []"
      by (simp add: deleting_world_def world0_def)
    then show ?thesis
      by (simp add: deleting_run added_def)
  qed
  have nm: "Name web_deleting @ ''.'' @ Namespace web_deleting @ ''.svc'' = ''web.default.svc''"
    by (simp add: web_deleting_def web_def)
  from dnsName_deterministic [where svc = web_deleting and l = "[(''tier'', ''front'')]"
         and a = "[]" and d = None and f = "[]" and c = "''10.0.0.9''"
         and cs = "[''10.0.0.9'']" and R = Reconcile and w = deleting_world and r = cfg0]
  have a: "dnsName (web_deleting\<lparr>Labels := [(''tier'', ''front'')], Annotations := [],
        DeletionTimestamp := None, Finalizers := [], ClusterIP := ''10.0.0.9'',
        ClusterIPs := [''10.0.0.9'']\<rparr>) = Name web_deleting @ ''.'' @ Namespace web_deleting @ ''.svc''"
    and b: "\<forall>ev \<in> set (added deleting_world (snd (Reconcile cfg0 deleting_world))).
           dns_name_of ev = None
           \<or> dns_name_of ev = Some (Name web_deleting @ ''.'' @ Namespace web_deleting @ ''.svc'')"
    using ob by simp_all
  from b mem have "dns_name_of (CallUpsertDNSRecords ''web.default.svc'' [''10.0.0.5'']) = None
      \<or> dns_name_of (CallUpsertDNSRecords ''web.default.svc'' [''10.0.0.5'']) =
          Some (Name web_deleting @ ''.'' @ Namespace web_deleting @ ''.svc'')"
    by blast
  then have c: "dns_name_of (CallUpsertDNSRecords ''web.default.svc'' [''10.0.0.5'']) =
          Some (Name web_deleting @ ''.'' @ Namespace web_deleting @ ''.svc'')"
    by simp
  show ?thesis
    using ob mem c a nm by simp
qed

end
